theory Spec2Isabelle
  imports Main
begin

section \<open>JSON values as the bridge sees them\<close>

text \<open>
  A value produced by \<open>JSON.parse\<close>. Numbers are the integer-valued ones. A JavaScript
  value that may be \<open>undefined\<close> (an absent property) is a \<open>json option\<close>, with
  \<open>None\<close> for \<open>undefined\<close>.
\<close>

datatype json =
    JNull
  | JBool bool
  | JNum int
  | JStr string
  | JArr "json list"
  | JObj "(string \<times> json) list"

text \<open>Property access \<open>v.k\<close> on a value that is not \<open>null\<close>: a later duplicate key wins
  in \<open>JSON.parse\<close>; every non-object here has none of the properties the bridge reads.\<close>

fun get_field :: "string \<Rightarrow> json \<Rightarrow> json option" where
  "get_field k (JObj kvs) = map_of (rev kvs) k"
| "get_field k v = None"

text \<open>JavaScript truthiness, as used by \<open>||\<close>, \<open>!\<close> and \<open>if\<close>.\<close>

fun truthy :: "json option \<Rightarrow> bool" where
  "truthy None = False"
| "truthy (Some JNull) = False"
| "truthy (Some (JBool b)) = b"
| "truthy (Some (JNum n)) = (n \<noteq> 0)"
| "truthy (Some (JStr s)) = (s \<noteq> [])"
| "truthy (Some (JArr xs)) = True"
| "truthy (Some (JObj kvs)) = True"

text \<open>The expression \<open>message.id || 0\<close>.\<close>

definition id_or_zero :: "json option \<Rightarrow> json option" where
  "id_or_zero i = (if truthy i then i else Some (JNum 0))"

text \<open>\<open>typeof v === 'object'\<close> for a truthy value.\<close>

fun is_object :: "json option \<Rightarrow> bool" where
  "is_object (Some (JObj kvs)) = True"
| "is_object (Some (JArr xs)) = True"
| "is_object v = False"

section \<open>The auto-port bridge: correlator and translator\<close>

text \<open>The message of an \<open>Error\<close> object the bridge creates or catches.\<close>

datatype errmsg =
    NotConnected
  | UnknownMethod "json option"
  | TimedOut
  | ConnectionClosed
  | NoConnection
  | ErrorOf "json option"
  | TypeError
  | SendFailed

text \<open>What \<open>processRequest\<close> hands to \<open>sendMcpResponse\<close> as the result.\<close>

datatype payload =
    InitializeResult
  | EmptyObject
  | ToolCatalog
  | ResourceList
  | ResourceTemplateList
  | PeerResult "json option"

text \<open>One newline-terminated line on standard output: \<open>sendMcpResponse id result\<close> or
  \<open>sendMcpError id message\<close>. An \<open>undefined\<close> id is left out by \<open>JSON.stringify\<close>.\<close>

datatype frame =
    McpResponse "json option" payload
  | McpError "json option" errmsg

text \<open>The request frame sent to the plugin: \<open>{id, name, arguments, jsonrpc}\<close>.\<close>

record peer_request =
  req_id :: nat
  req_name :: "json option"
  req_arguments :: json

text \<open>How a pending promise was settled.\<close>

datatype outcome = Resolved "json option" | Rejected errmsg

text \<open>
  The module state of the bridge. \<open>pendingRequests\<close> is the \<open>Map\<close>, in insertion order; the
  \<open>resolve\<close>/\<open>reject\<close> pair of an entry continues \<open>processRequest message\<close>, which only reads
  \<open>message.id\<close>, so the entry keeps that id. \<open>timers\<close> are the identifiers whose timeout is
  armed. \<open>clients\<close> are the sockets the server holds open. \<open>stdout\<close>, \<open>sent\<close> and
  \<open>settled\<close> record, oldest first, the lines written, the frames sent to the plugin and the
  calls of \<open>resolve\<close>/\<open>reject\<close>.
\<close>

record bridge =
  obsidianConnection :: "nat option"
  clients :: "nat list"
  pendingRequests :: "(nat \<times> json option) list"
  nextRequestId :: nat
  timers :: "nat list"
  stdout :: "frame list"
  sent :: "(nat \<times> peer_request) list"
  settled :: "(nat \<times> outcome) list"

definition initial_bridge :: bridge where
  "initial_bridge = \<lparr> obsidianConnection = None, clients = [], pendingRequests = [],
     nextRequestId = 1, timers = [], stdout = [], sent = [], settled = [] \<rparr>"

definition sendMcpResponse :: "json option \<Rightarrow> payload \<Rightarrow> bridge \<Rightarrow> bridge" where
  "sendMcpResponse i r st = st\<lparr> stdout := stdout st @ [McpResponse i r] \<rparr>"

definition sendMcpError :: "json option \<Rightarrow> errmsg \<Rightarrow> bridge \<Rightarrow> bridge" where
  "sendMcpError i e st = st\<lparr> stdout := stdout st @ [McpError i e] \<rparr>"

text \<open>\<open>pendingRequests.set\<close>, \<open>.has\<close>/\<open>.get\<close> and \<open>.delete\<close>; \<open>clearTimeout\<close>.\<close>

fun pending_set :: "nat \<Rightarrow> json option \<Rightarrow> (nat \<times> json option) list \<Rightarrow> (nat \<times> json option) list" where
  "pending_set k v [] = [(k, v)]"
| "pending_set k v ((k', v') # ps) =
     (if k = k' then (k, v) # ps else (k', v') # pending_set k v ps)"

definition pending_delete :: "nat \<Rightarrow> (nat \<times> json option) list \<Rightarrow> (nat \<times> json option) list" where
  "pending_delete k ps = filter (\<lambda>p. fst p \<noteq> k) ps"

definition clearTimeout :: "nat \<Rightarrow> bridge \<Rightarrow> bridge" where
  "clearTimeout k st = st\<lparr> timers := removeAll k (timers st) \<rparr>"

text \<open>
  The continuation of \<open>await forwardToObsidian\<close> in \<open>processRequest\<close> and
  \<open>handleMcpRequest\<close>: a result is written with \<open>message.id || 0\<close> and \<open>null\<close> is returned,
  so nothing else is written; a rejection is caught and written with \<open>message.id\<close>.
\<close>

definition resolve :: "nat \<Rightarrow> json option \<Rightarrow> json option \<Rightarrow> bridge \<Rightarrow> bridge" where
  "resolve k mid r st =
     sendMcpResponse (id_or_zero mid) (PeerResult r)
       (st\<lparr> settled := settled st @ [(k, Resolved r)] \<rparr>)"

definition reject :: "nat \<Rightarrow> json option \<Rightarrow> errmsg \<Rightarrow> bridge \<Rightarrow> bridge" where
  "reject k mid e st =
     sendMcpError mid e (st\<lparr> settled := settled st @ [(k, Rejected e)] \<rparr>)"

text \<open>
  \<open>forwardToObsidian params\<close>, called for a request whose \<open>message.id\<close> is \<open>mid\<close>. The
  identifier is \<open>nextRequestId++\<close>; the timeout is armed and the entry stored before the send
  is tried. \<open>params.name\<close> on an \<open>undefined\<close> or \<open>null\<close> \<open>params\<close> throws inside the
  \<open>try\<close>; \<open>send_ok\<close> says whether \<open>obsidianConnection.send\<close> returns rather than throws.
\<close>

definition fail_forward :: "nat \<Rightarrow> json option \<Rightarrow> errmsg \<Rightarrow> bridge \<Rightarrow> bridge" where
  "fail_forward k mid e st =
     reject k mid e
       ((clearTimeout k st)\<lparr> pendingRequests := pending_delete k (pendingRequests st) \<rparr>)"

definition forwardToObsidian :: "json option \<Rightarrow> bool \<Rightarrow> json option \<Rightarrow> bridge \<Rightarrow> bridge" where
  "forwardToObsidian params send_ok mid st =
     (let k = nextRequestId st;
          st1 = st\<lparr> nextRequestId := k + 1,
                     timers := timers st @ [k],
                     pendingRequests := pending_set k mid (pendingRequests st) \<rparr>
      in case obsidianConnection st1 of
           None \<Rightarrow> fail_forward k mid NoConnection st1
         | Some ws \<Rightarrow>
             (case params of
                None \<Rightarrow> fail_forward k mid TypeError st1
              | Some JNull \<Rightarrow> fail_forward k mid TypeError st1
              | Some p \<Rightarrow>
                  if send_ok
                  then st1\<lparr> sent := sent st1 @
                         [(ws, \<lparr> req_id = k, req_name = get_field ''name'' p,
                                 req_arguments =
                                   (case get_field ''arguments'' p of
                                      Some a \<Rightarrow> if truthy (Some a) then a else JObj []
                                    | None \<Rightarrow> JObj []) \<rparr>)] \<rparr>
                  else fail_forward k mid SendFailed st1))"

text \<open>
  \<open>processRequest message\<close> for a message that is not \<open>null\<close>: it returns a value, throws,
  or is suspended at \<open>await forwardToObsidian\<close> (its continuation is \<open>resolve\<close>/\<open>reject\<close>
  above).
\<close>

datatype reply = Return payload | Throw errmsg | Awaiting

definition processRequest :: "json \<Rightarrow> bool \<Rightarrow> bridge \<Rightarrow> reply \<times> bridge" where
  "processRequest message send_ok st =
     (let m = get_field ''method'' message in
      if m = Some (JStr ''initialize'') then (Return InitializeResult, st)
      else if m = Some (JStr ''notifications/initialized'') then (Return EmptyObject, st)
      else if m = Some (JStr ''tools/list'') then (Return ToolCatalog, st)
      else if m = Some (JStr ''tools/call'') then
        (if obsidianConnection st = None then (Throw NotConnected, st)
         else (Awaiting,
               forwardToObsidian (get_field ''params'' message) send_ok
                 (get_field ''id'' message) st))
      else if m = Some (JStr ''resources/list'') then (Return ResourceList, st)
      else if m = Some (JStr ''resources/templates/list'') then (Return ResourceTemplateList, st)
      else (Throw (UnknownMethod m), st))"

text \<open>
  \<open>handleMcpRequest message\<close> with the \<open>catch\<close> of the stdin handler around it. For the
  message \<open>null\<close>, \<open>message.method\<close> throws, and so does \<open>message.id\<close> in both
  \<open>catch\<close> handlers: nothing is written.
\<close>

definition handleMcpRequest :: "json \<Rightarrow> bool \<Rightarrow> bridge \<Rightarrow> bridge" where
  "handleMcpRequest message send_ok st =
     (if message = JNull then st
      else case processRequest message send_ok st of
             (Return r, st') \<Rightarrow> sendMcpResponse (get_field ''id'' message) r st'
           | (Throw e, st') \<Rightarrow> sendMcpError (get_field ''id'' message) e st'
           | (Awaiting, st') \<Rightarrow> st')"

text \<open>\<open>pendingRequests.has(response.id)\<close>: the keys are numbers, so only a number matches.\<close>

fun pending_key :: "json option \<Rightarrow> (nat \<times> json option) list \<Rightarrow> nat option" where
  "pending_key (Some (JNum n)) ps =
     (if 0 \<le> n \<and> nat n \<in> fst ` set ps then Some (nat n) else None)"
| "pending_key v ps = None"

text \<open>The \<open>message\<close> handler of a socket; \<open>None\<close> is data that \<open>JSON.parse\<close> refuses, and
  \<open>response.id\<close> on \<open>null\<close> throws: both are caught and logged.\<close>

definition on_message :: "json option \<Rightarrow> bridge \<Rightarrow> bridge" where
  "on_message data st =
     (case data of
        None \<Rightarrow> st
      | Some JNull \<Rightarrow> st
      | Some response \<Rightarrow>
          (case pending_key (get_field ''id'' response) (pendingRequests st) of
             None \<Rightarrow> st
           | Some k \<Rightarrow>
               (let mid = the (map_of (pendingRequests st) k);
                    st1 = (clearTimeout k st)
                            \<lparr> pendingRequests := pending_delete k (pendingRequests st) \<rparr>;
                    err = get_field ''error'' response
                in if truthy err
                   then reject k mid
                          (ErrorOf (if is_object err then get_field ''message'' (the err) else err))
                          st1
                   else resolve k mid (get_field ''result'' response) st1)))"

text \<open>The \<open>close\<close> handler of a socket (which also leaves \<open>server.clients\<close>).\<close>

definition reject_all :: "(nat \<times> json option) list \<Rightarrow> bridge \<Rightarrow> bridge" where
  "reject_all ps st =
     foldl (\<lambda>s p. reject (fst p) (snd p) ConnectionClosed (clearTimeout (fst p) s)) st ps"

definition on_close :: "nat \<Rightarrow> bridge \<Rightarrow> bridge" where
  "on_close ws st =
     (reject_all (pendingRequests st)
        (st\<lparr> obsidianConnection := None, clients := removeAll ws (clients st) \<rparr>))
       \<lparr> pendingRequests := [] \<rparr>"

text \<open>The callback of the 15 second timeout of request \<open>k\<close>, and the timer firing: only an
  armed timer fires.\<close>

definition timeout_callback :: "nat \<Rightarrow> bridge \<Rightarrow> bridge" where
  "timeout_callback k st =
     (case map_of (pendingRequests st) k of
        Some mid \<Rightarrow>
          reject k mid TimedOut
            (st\<lparr> pendingRequests := pending_delete k (pendingRequests st) \<rparr>)
      | None \<Rightarrow> st)"

definition timer_fires :: "nat \<Rightarrow> bridge \<Rightarrow> bridge" where
  "timer_fires k st =
     (if k \<in> set (timers st) then timeout_callback k (clearTimeout k st) else st)"

text \<open>The \<open>connection\<close> handler of the server in the auto-port bridge.\<close>

definition on_connection :: "nat \<Rightarrow> bridge \<Rightarrow> bridge" where
  "on_connection ws st = st\<lparr> obsidianConnection := Some ws, clients := clients st @ [ws] \<rparr>"

text \<open>The events of the bridge's event loop, and a run of them.\<close>

datatype event =
    Stdin json bool
  | Connection nat
  | WsMessage nat "json option"
  | WsClose nat
  | TimerFires nat

fun step :: "bridge \<Rightarrow> event \<Rightarrow> bridge" where
  "step st (Stdin message send_ok) = handleMcpRequest message send_ok st"
| "step st (Connection ws) = on_connection ws st"
| "step st (WsMessage ws data) = on_message data st"
| "step st (WsClose ws) = on_close ws st"
| "step st (TimerFires k) = timer_fires k st"

definition run :: "event list \<Rightarrow> bridge \<Rightarrow> bridge" where
  "run evs st = foldl step st evs"

section \<open>The earlier bridge: its connection handler\<close>

text \<open>
  The \<open>connection\<close> handler of the earlier bridge closes the connection it holds before it
  takes the new socket. \<open>close()\<close> starts the closing handshake: the socket is no longer
  open, and its \<open>close\<close> event comes later.
\<close>

record listener =
  held :: "nat option"
  open_sockets :: "nat list"
  closing_sockets :: "nat list"

definition on_connection_earlier :: "nat \<Rightarrow> listener \<Rightarrow> listener" where
  "on_connection_earlier ws st =
     (let st1 = (case held st of
                   Some old \<Rightarrow> st\<lparr> open_sockets := removeAll old (open_sockets st),
                                   closing_sockets := closing_sockets st @ [old] \<rparr>
                 | None \<Rightarrow> st)
      in st1\<lparr> held := Some ws, open_sockets := open_sockets st1 @ [ws] \<rparr>)"

section \<open>The port allocator of the auto-port bridge\<close>

definition DEFAULT_PORT :: nat where
  "DEFAULT_PORT = 27125"

definition PORT_RANGE :: "nat \<times> nat" where
  "PORT_RANGE = (27125, 27135)"

text \<open>What happens to \<open>new WebSocket.Server({ port })\<close>: the \<open>listening\<close> event, an
  \<open>error\<close> event with code \<open>EADDRINUSE\<close>, or an \<open>error\<close> event with another code.\<close>

datatype bind_result = Listening | AddrInUse | BindError

datatype port_action = Attempt nat | SavePort nat | Sleep nat | ScheduleSweep nat

text \<open>
  How a call of \<open>createServer\<close> ends: it returns at once when shutting down, returns with
  the server bound, returns with a new sweep scheduled, or never returns because the promise
  it awaits is never settled.
\<close>

datatype create_result = ShuttingDown | Bound nat | SweepScheduled | NeverSettles nat

text \<open>\<open>port_file\<close> is \<open>parseInt\<close> of the file's content; \<open>None\<close> when the file is absent
  or holds no number.\<close>

record allocator =
  currentPort :: nat
  port_file :: "int option"
  isShuttingDown :: bool
  actions :: "port_action list"

definition initial_allocator :: allocator where
  "initial_allocator = \<lparr> currentPort = DEFAULT_PORT, port_file = None,
     isShuttingDown = False, actions = [] \<rparr>"

definition loadLastSuccessfulPort :: "allocator \<Rightarrow> allocator" where
  "loadLastSuccessfulPort st =
     (case port_file st of
        Some savedPort \<Rightarrow>
          if int (fst PORT_RANGE) \<le> savedPort \<and> savedPort \<le> int (snd PORT_RANGE)
          then st\<lparr> currentPort := nat savedPort \<rparr> else st
      | None \<Rightarrow> st)"

definition saveSuccessfulPort :: "nat \<Rightarrow> allocator \<Rightarrow> allocator" where
  "saveSuccessfulPort port st =
     st\<lparr> port_file := Some (int port), actions := actions st @ [SavePort port] \<rparr>"

text \<open>
  The \<open>for\<close> loop of \<open>createServer\<close>. \<open>env port n\<close> is the outcome of bind attempt number
  \<open>n\<close> on \<open>port\<close>; the loop makes one attempt per port. On \<open>EADDRINUSE\<close> the handler closes
  the server and neither resolves nor rejects, so the \<open>await\<close> never returns.
\<close>

function try_ports :: "(nat \<Rightarrow> nat \<Rightarrow> bind_result) \<Rightarrow> nat \<Rightarrow> allocator \<Rightarrow> create_result \<times> allocator" where
  "try_ports env port st =
     (if port \<le> snd PORT_RANGE then
        (let st1 = st\<lparr> actions := actions st @ [Attempt port] \<rparr>
         in case env port 0 of
              Listening \<Rightarrow> (Bound port, saveSuccessfulPort port (st1\<lparr> currentPort := port \<rparr>))
            | AddrInUse \<Rightarrow> (NeverSettles port, st1)
            | BindError \<Rightarrow>
                try_ports env (port + 1) (st1\<lparr> actions := actions st1 @ [Sleep 2000] \<rparr>))
      else (SweepScheduled, st\<lparr> actions := actions st @ [ScheduleSweep 5000] \<rparr>))"
  by pat_completeness auto
termination
  by (relation "measure (\<lambda>(env, port, st). Suc (snd PORT_RANGE) - port)") auto

definition createServer :: "(nat \<Rightarrow> nat \<Rightarrow> bind_result) \<Rightarrow> allocator \<Rightarrow> create_result \<times> allocator" where
  "createServer env st =
     (if isShuttingDown st then (ShuttingDown, st)
      else let st1 = loadLastSuccessfulPort st in try_ports env (currentPort st1) st1)"



section \<open>The supervisor\<close>

definition CHECK_INTERVAL :: int where
  "CHECK_INTERVAL = 10000"

definition MAX_RESTARTS :: nat where
  "MAX_RESTARTS = 5"

definition RESTART_COOLDOWN :: int where
  "RESTART_COOLDOWN = 60000"

datatype signal = SIGTERM | SIGINT | SIGKILL

datatype timer = RestartTimer | CooldownTimer

text \<open>
  The module state of the service, times in milliseconds. A child is named by its number in
  the order of spawning. \<open>running\<close> are the children that have not exited, \<open>spawned\<close> the
  spawns with their times, \<open>scheduled\<close> the \<open>setTimeout\<close> callbacks not yet run, with the
  time they are due.
\<close>

record supervisor =
  bridgeProcess :: "nat option"
  restartCount :: nat
  lastRestartTime :: int
  shutdownRequested :: bool
  running :: "nat list"
  spawned :: "(int \<times> nat) list"
  scheduled :: "(int \<times> timer) list"

definition initial_supervisor :: supervisor where
  "initial_supervisor = \<lparr> bridgeProcess = None, restartCount = 0, lastRestartTime = 0,
     shutdownRequested = False, running = [], spawned = [], scheduled = [] \<rparr>"

text \<open>\<open>startBridge()\<close> called at time \<open>now\<close>; \<open>try_ok\<close> says whether the \<open>try\<close> block
  that spawns the child completes. The value is what the call returns.\<close>

definition startBridge :: "int \<Rightarrow> bool \<Rightarrow> supervisor \<Rightarrow> nat option \<times> supervisor" where
  "startBridge now try_ok st =
     (if shutdownRequested st then (None, st)
      else if restartCount st \<ge> MAX_RESTARTS \<and> now - lastRestartTime st < RESTART_COOLDOWN
      then (None, st\<lparr> scheduled := scheduled st @ [(now + RESTART_COOLDOWN, CooldownTimer)] \<rparr>)
      else if try_ok
      then (let c = length (spawned st)
            in (Some c, st\<lparr> running := running st @ [c],
                              spawned := spawned st @ [(now, c)] \<rparr>))
      else (None, st))"

text \<open>The \<open>exit\<close> handler of a child.\<close>

definition on_exit :: "int \<Rightarrow> nat \<Rightarrow> signal option \<Rightarrow> supervisor \<Rightarrow> supervisor" where
  "on_exit now c sig st =
     (let st1 = st\<lparr> restartCount := restartCount st + 1, lastRestartTime := now,
                     running := removeAll c (running st) \<rparr>
      in if \<not> shutdownRequested st1 \<and> sig \<noteq> Some SIGTERM \<and> sig \<noteq> Some SIGINT
         then st1\<lparr> scheduled := scheduled st1 @ [(now + 2000, RestartTimer)] \<rparr>
         else st1)"

text \<open>The two timer callbacks: \<open>bridgeProcess = startBridge()\<close> two seconds after an exit, and
  \<open>restartCount = 0; startBridge()\<close> when the cooldown is over.\<close>

definition restart_callback :: "int \<Rightarrow> bool \<Rightarrow> supervisor \<Rightarrow> supervisor" where
  "restart_callback now try_ok st =
     (case startBridge now try_ok st of (b, st') \<Rightarrow> st'\<lparr> bridgeProcess := b \<rparr>)"

definition cooldown_callback :: "int \<Rightarrow> bool \<Rightarrow> supervisor \<Rightarrow> supervisor" where
  "cooldown_callback now try_ok st = snd (startBridge now try_ok (st\<lparr> restartCount := 0 \<rparr>))"

text \<open>One tick of the interval of \<open>startHealthCheck\<close>; \<open>isProcessRunning\<close> is false for a
  child that has exited.\<close>

definition health_check :: "int \<Rightarrow> bool \<Rightarrow> supervisor \<Rightarrow> supervisor" where
  "health_check now try_ok st =
     (if shutdownRequested st then st
      else case bridgeProcess st of
             Some c \<Rightarrow>
               if c \<notin> set (running st) then restart_callback now try_ok st else st
           | None \<Rightarrow> st)"

text \<open>\<open>main()\<close>: the first \<open>bridgeProcess = startBridge()\<close>.\<close>

definition main :: "int \<Rightarrow> supervisor" where
  "main now = restart_callback now True initial_supervisor"

text \<open>
  The events of the service's event loop, each with the time it is handled: a running child
  exits, a scheduled timer is due, the health check interval ticks. Spawning succeeds.
\<close>

datatype sup_event = ChildExit nat "signal option" | TimerDue timer | HealthCheck

fun sup_step :: "supervisor \<Rightarrow> int \<times> sup_event \<Rightarrow> supervisor" where
  "sup_step st (now, ChildExit c sig) =
     (if c \<in> set (running st) then on_exit now c sig st else st)"
| "sup_step st (now, TimerDue RestartTimer) =
     (if (now, RestartTimer) \<in> set (scheduled st)
      then restart_callback now True
             (st\<lparr> scheduled := remove1 (now, RestartTimer) (scheduled st) \<rparr>)
      else st)"
| "sup_step st (now, TimerDue CooldownTimer) =
     (if (now, CooldownTimer) \<in> set (scheduled st)
      then cooldown_callback now True
             (st\<lparr> scheduled := remove1 (now, CooldownTimer) (scheduled st) \<rparr>)
      else st)"
| "sup_step st (now, HealthCheck) =
     (if 0 < now \<and> now mod CHECK_INTERVAL = 0 then health_check now True st else st)"

definition sup_run :: "(int \<times> sup_event) list \<Rightarrow> supervisor \<Rightarrow> supervisor" where
  "sup_run evs st = foldl sup_step st evs"

section \<open>The plugin's console buffer\<close>

text \<open>The replacement console method: the message is pushed, and the oldest is shifted out
  when the buffer holds more than 1000.\<close>

definition capture :: "'a \<Rightarrow> 'a list \<Rightarrow> 'a list" where
  "capture m consoleMessages =
     (let ms = consoleMessages @ [m] in if length ms > 1000 then tl ms else ms)"

text \<open>\<open>Array.prototype.slice(start)\<close>: a negative start counts from the end.\<close>

definition slice_from :: "int \<Rightarrow> 'a list \<Rightarrow> 'a list" where
  "slice_from start xs =
     (let len = int (length xs);
          k = (if start < 0 then max (len + start) 0 else min start len)
      in drop (nat k) xs)"

text \<open>\<open>getConsoleLogs(limit = 100)\<close>: \<open>None\<close> is an \<open>undefined\<close> limit.\<close>

definition getConsoleLogs :: "int option \<Rightarrow> 'a list \<Rightarrow> 'a list" where
  "getConsoleLogs limit consoleMessages =
     slice_from (- (case limit of None \<Rightarrow> 100 | Some l \<Rightarrow> l)) consoleMessages"

section \<open>Notions used in the statements and proofs\<close>











text \<open>A \<open>tools/call\<close> request as a client sends it, with id 7.\<close>

definition example_call :: json where
  "example_call = JObj [(''jsonrpc'', JStr ''2.0''), (''id'', JNum 7), (''method'', JStr ''tools/call''),
     (''params'', JObj [(''name'', JStr ''query_elements''),
                        (''arguments'', JObj [(''selector'', JStr ''div'')])])]"




text \<open>The bridge with a peer on socket 4 and three calls forwarded.\<close>

definition three_pending :: bridge where
  "three_pending = run [Connection 4, Stdin example_call True, Stdin example_call True,
     Stdin example_call True] initial_bridge"







text \<open>The child exits shortly before each tick of the health check: the tick finds
  \<open>bridgeProcess\<close> dead and starts a child, and the restart scheduled by the exit handler
  starts another one two seconds after the exit.\<close>

definition exits_before_health_checks :: "(int \<times> sup_event) list" where
  "exits_before_health_checks =
    [(9900, ChildExit 0 None), (10000, HealthCheck), (11900, TimerDue RestartTimer),
     (19900, ChildExit 2 None), (20000, HealthCheck), (21900, TimerDue RestartTimer),
     (29900, ChildExit 4 None), (30000, HealthCheck), (31900, TimerDue RestartTimer),
     (39900, ChildExit 6 None), (40000, HealthCheck), (41900, TimerDue RestartTimer)]"


text \<open>Port 27125 is in use; every other port binds.\<close>

definition first_port_in_use :: "nat \<Rightarrow> nat \<Rightarrow> bind_result" where
  "first_port_in_use port n = (if port = 27125 then AddrInUse else Listening)"

declare try_ports.simps [simp del]




text \<open>A child that exits 100 ms after every start, with no health-check tick in between: four
  restarts, then the fifth exit is throttled and the cooldown timer starts the next child.\<close>

definition crash_loop :: "(int \<times> sup_event) list" where
  "crash_loop =
    [(100, ChildExit 0 None), (2100, TimerDue RestartTimer),
     (2200, ChildExit 1 None), (4200, TimerDue RestartTimer),
     (4300, ChildExit 2 None), (6300, TimerDue RestartTimer),
     (6400, ChildExit 3 None), (8400, TimerDue RestartTimer),
     (8500, ChildExit 4 None), (10500, TimerDue RestartTimer)]"

section \<open>Facts about the handlers, the allocator, the supervisor and the console buffer\<close>



















lemma reject_all_Nil: "reject_all [] st = st"
  by (simp add: reject_all_def)

lemma reject_all_Cons: "reject_all (p # ps) st =
    reject_all ps (reject (fst p) (snd p) ConnectionClosed (clearTimeout (fst p) st))"
  by (simp add: reject_all_def)

lemma reject_all_pending: "pendingRequests (reject_all ps st) = pendingRequests st"
  by (induction ps arbitrary: st)
     (simp_all add: reject_all_Nil reject_all_Cons reject_def sendMcpError_def clearTimeout_def)

lemma reject_all_timers:
  "timers (reject_all ps st) = filter (\<lambda>t. t \<notin> fst ` set ps) (timers st)"
  by (induction ps arbitrary: st)
     (auto simp add: reject_all_Nil reject_all_Cons reject_def sendMcpError_def clearTimeout_def
        removeAll_filter_not_eq intro: filter_cong)

lemma reject_all_settled:
  "settled (reject_all ps st) = settled st @ map (\<lambda>p. (fst p, Rejected ConnectionClosed)) ps"
  by (induction ps arbitrary: st)
     (simp_all add: reject_all_Nil reject_all_Cons reject_def sendMcpError_def clearTimeout_def)

lemma reject_all_stdout:
  "stdout (reject_all ps st) = stdout st @ map (\<lambda>p. McpError (snd p) ConnectionClosed) ps"
  by (induction ps arbitrary: st)
     (simp_all add: reject_all_Nil reject_all_Cons reject_def sendMcpError_def clearTimeout_def)

lemma reject_all_others:
  "nextRequestId (reject_all ps st) = nextRequestId st"
  "sent (reject_all ps st) = sent st"
  "obsidianConnection (reject_all ps st) = obsidianConnection st"
  "clients (reject_all ps st) = clients st"
  by (induction ps arbitrary: st)
     (simp_all add: reject_all_Nil reject_all_Cons reject_def sendMcpError_def clearTimeout_def)

lemmas reject_all_fields = reject_all_pending reject_all_timers reject_all_settled
  reject_all_stdout reject_all_others

lemma on_close_fields:
  "pendingRequests (on_close ws st) = []"
  "timers (on_close ws st) = filter (\<lambda>t. t \<notin> fst ` set (pendingRequests st)) (timers st)"
  "settled (on_close ws st) =
     settled st @ map (\<lambda>p. (fst p, Rejected ConnectionClosed)) (pendingRequests st)"
  "stdout (on_close ws st) =
     stdout st @ map (\<lambda>p. McpError (snd p) ConnectionClosed) (pendingRequests st)"
  "nextRequestId (on_close ws st) = nextRequestId st"
  "sent (on_close ws st) = sent st"
  "obsidianConnection (on_close ws st) = None"
  "clients (on_close ws st) = removeAll ws (clients st)"
  by (simp_all add: on_close_def reject_all_fields)















lemma example_call_fields:
  "get_field ''method'' example_call = Some (JStr ''tools/call'')"
  "get_field ''id'' example_call = Some (JNum 7)"
  "get_field ''params'' example_call = Some (JObj [(''name'', JStr ''query_elements''),
                        (''arguments'', JObj [(''selector'', JStr ''div'')])])"
  "example_call \<noteq> JNull"
  by (simp_all add: example_call_def)

lemma three_pending_fields:
  "pendingRequests three_pending = [(1, Some (JNum 7)), (2, Some (JNum 7)), (3, Some (JNum 7))]"
  "timers three_pending = [1, 2, 3]"
  "stdout three_pending = []"
  "settled three_pending = []"
  "obsidianConnection three_pending = Some 4"
  "nextRequestId three_pending = 4"
  "length (sent three_pending) = 3"
  by (simp_all add: three_pending_def run_def initial_bridge_def on_connection_def
      handleMcpRequest_def processRequest_def forwardToObsidian_def Let_def example_call_fields)
























lemma on_connection_earlier_closes:
  assumes "held st = Some old" "old \<noteq> ws"
  shows "old \<notin> set (open_sockets (on_connection_earlier ws st)) \<and>
         old \<in> set (closing_sockets (on_connection_earlier ws st)) \<and>
         held (on_connection_earlier ws st) = Some ws"
  using assms by (simp add: on_connection_earlier_def)

lemma capture_keeps_bound:
  "length consoleMessages \<le> 1000 \<Longrightarrow> length (capture m consoleMessages) \<le> 1000"
  by (simp add: capture_def Let_def)

lemma capture_drops_oldest:
  "length consoleMessages = 1000 \<Longrightarrow> capture m consoleMessages = tl consoleMessages @ [m]"
  by (cases consoleMessages) (simp_all add: capture_def Let_def)

lemma getConsoleLogs_positive_limit:
  assumes "0 < l"
  shows "getConsoleLogs (Some l) consoleMessages =
           drop (length consoleMessages - nat l) consoleMessages"
    and "int (length (getConsoleLogs (Some l) consoleMessages)) \<le> l"
  using assms by (auto simp: getConsoleLogs_def slice_from_def Let_def max_def nat_diff_distrib')

lemma getConsoleLogs_default:
  "getConsoleLogs None consoleMessages = drop (length consoleMessages - 100) consoleMessages"
  by (auto simp: getConsoleLogs_def slice_from_def Let_def max_def nat_diff_distrib')

lemma startBridge_throttled:
  assumes "\<not> shutdownRequested st" "MAX_RESTARTS \<le> restartCount st"
    "now - lastRestartTime st < RESTART_COOLDOWN"
  shows "startBridge now try_ok st =
     (None, st\<lparr> scheduled := scheduled st @ [(now + RESTART_COOLDOWN, CooldownTimer)] \<rparr>)"
  using assms by (simp add: startBridge_def)

lemma cooldown_callback_restarts:
  assumes "\<not> shutdownRequested st"
  shows "restartCount (cooldown_callback now True st) = 0"
    and "spawned (cooldown_callback now True st) = spawned st @ [(now, length (spawned st))]"
  using assms by (simp_all add: cooldown_callback_def startBridge_def MAX_RESTARTS_def Let_def)

lemma createServer_address_in_use_never_settles:
  "fst (createServer first_port_in_use initial_allocator) = NeverSettles 27125 \<and>
   actions (snd (createServer first_port_in_use initial_allocator)) = [Attempt 27125]"
  by (simp add: createServer_def initial_allocator_def
      loadLastSuccessfulPort_def DEFAULT_PORT_def PORT_RANGE_def try_ports.simps
      first_port_in_use_def saveSuccessfulPort_def Let_def)






lemma try_ports_persists_only_bound:
  "(case fst (try_ports env port st) of
      Bound p \<Rightarrow> port_file (snd (try_ports env port st)) = Some (int p) \<and>
                 currentPort (snd (try_ports env port st)) = p \<and>
                 port \<le> p \<and> p \<le> snd PORT_RANGE \<and> env p 0 = Listening
    | other \<Rightarrow> port_file (snd (try_ports env port st)) = port_file st \<and>
               currentPort (snd (try_ports env port st)) = currentPort st)"
proof (induction env port st rule: try_ports.induct)
  case (1 env port st)
  show ?case
  proof (cases "port \<le> snd PORT_RANGE")
    case False
    then show ?thesis by (simp add: try_ports.simps[of env port st])
  next
    case True
    show ?thesis
    proof (cases "env port 0")
      case Listening
      with True show ?thesis
        by (simp add: try_ports.simps[of env port st] saveSuccessfulPort_def Let_def)
    next
      case AddrInUse
      with True show ?thesis
        by (simp add: try_ports.simps[of env port st] Let_def)
    next
      case BindError
      let ?st1 = "st\<lparr> actions := actions st @ [Attempt port] \<rparr>"
      let ?st2 = "?st1\<lparr> actions := actions ?st1 @ [Sleep 2000] \<rparr>"
      note IH = "1.IH"[OF True refl BindError]
      have t: "try_ports env port st = try_ports env (port + 1) ?st2"
        using True BindError by (simp add: try_ports.simps[of env port st] Let_def)
      from IH show ?thesis
        unfolding t by (auto split: create_result.splits)
    qed
  qed
qed

lemma createServer_persists_only_bound:
  "(\<forall>p. fst (createServer env st) \<noteq> Bound p) \<Longrightarrow>
   port_file (snd (createServer env st)) = port_file st"
proof (cases "isShuttingDown st")
  case True
  then show ?thesis by (simp add: createServer_def)
next
  case False
  assume nb: "\<forall>p. fst (createServer env st) \<noteq> Bound p"
  let ?st1 = "loadLastSuccessfulPort st"
  have l: "port_file ?st1 = port_file st"
    by (simp add: loadLastSuccessfulPort_def split: option.splits)
  from False have c: "createServer env st = try_ports env (currentPort ?st1) ?st1"
    by (simp add: createServer_def Let_def)
  from try_ports_persists_only_bound[of env "currentPort ?st1" ?st1] nb
  show ?thesis unfolding c l[symmetric] by (auto split: create_result.splits)
qed

lemma crash_loop_is_throttled:
  "map fst (spawned (sup_run crash_loop (main 0))) = [0, 2100, 4200, 6300, 8400]"
  "restartCount (sup_run crash_loop (main 0)) = 5"
  "scheduled (sup_run crash_loop (main 0)) = [(70500, CooldownTimer)]"
  "map fst (spawned (sup_run (crash_loop @ [(70500, TimerDue CooldownTimer)]) (main 0))) =
     [0, 2100, 4200, 6300, 8400, 70500]"
  "restartCount (sup_run (crash_loop @ [(70500, TimerDue CooldownTimer)]) (main 0)) = 0"
  by (simp_all add: crash_loop_def sup_run_def main_def initial_supervisor_def
      restart_callback_def cooldown_callback_def startBridge_def on_exit_def Let_def
      MAX_RESTARTS_def RESTART_COOLDOWN_def)

section \<open>The claims\<close>



text \<open>
  C2. A \<open>tools/call\<close> request handled while no peer is connected is answered at once with
  the error "Not connected to Obsidian plugin" under the request's own id. No pending entry is
  registered: the table, its size, the timers, the identifier counter and the socket are as
  before.
\<close>

theorem tools_call_without_peer:
  assumes "obsidianConnection st = None"
    and "get_field ''method'' message = Some (JStr ''tools/call'')"
  shows "handleMcpRequest message send_ok st =
           st\<lparr> stdout := stdout st @ [McpError (get_field ''id'' message) NotConnected] \<rparr> \<and>
         pendingRequests (handleMcpRequest message send_ok st) = pendingRequests st \<and>
         length (pendingRequests (handleMcpRequest message send_ok st)) = length (pendingRequests st) \<and>
         timers (handleMcpRequest message send_ok st) = timers st \<and>
         nextRequestId (handleMcpRequest message send_ok st) = nextRequestId st \<and>
         sent (handleMcpRequest message send_ok st) = sent st"
proof -
  from assms(2) have "message \<noteq> JNull" by auto
  with assms have "handleMcpRequest message send_ok st =
           st\<lparr> stdout := stdout st @ [McpError (get_field ''id'' message) NotConnected] \<rparr>"
    by (simp add: handleMcpRequest_def processRequest_def sendMcpError_def)
  then show ?thesis by simp
qed

theorem tools_call_without_peer_witness:
  "obsidianConnection initial_bridge = None \<and>
   get_field ''method'' example_call = Some (JStr ''tools/call'') \<and> 
   stdout (handleMcpRequest example_call True initial_bridge) = [McpError (Some (JNum 7)) NotConnected] \<and>
   pendingRequests (handleMcpRequest example_call True initial_bridge) = []"
proof -
  have h1: "obsidianConnection initial_bridge = None" by (simp add: initial_bridge_def)
  have h2: "get_field ''method'' example_call = Some (JStr ''tools/call'')" by (simp add: example_call_def)
  have i: "get_field ''id'' example_call = Some (JNum 7)" by (simp add: example_call_def)
  from tools_call_without_peer[OF h1 h2, of True] h1 h2 i show ?thesis
    by (simp add: initial_bridge_def)
qed

text \<open>
  C3. When the peer's socket closes, every entry of the pending-request table is rejected with
  "WebSocket connection closed", in the order of the table: its timeout is cleared, one
  rejection is recorded and one error line is written under the request's own id. The table
  is empty afterwards, the connection reference is cleared, and nothing is sent on a socket:
  no entry is retried.
\<close>

theorem disconnect_rejects_all_pending:
  "pendingRequests (on_close ws st) = [] \<and>
   settled (on_close ws st) =
     settled st @ map (\<lambda>p. (fst p, Rejected ConnectionClosed)) (pendingRequests st) \<and>
   stdout (on_close ws st) =
     stdout st @ map (\<lambda>p. McpError (snd p) ConnectionClosed) (pendingRequests st) \<and>
   timers (on_close ws st) = filter (\<lambda>t. t \<notin> fst ` set (pendingRequests st)) (timers st) \<and>
   sent (on_close ws st) = sent st \<and>
   obsidianConnection (on_close ws st) = None"
  by (simp add: on_close_fields)

text \<open>
  Three calls are pending on socket 4 when it closes: three rejections, three error lines, an
  empty table, no timer left.
\<close>

theorem disconnect_rejects_all_pending_witness:
  "pendingRequests (on_close 4 three_pending) = [] \<and>
   settled (on_close 4 three_pending) =
     [(1, Rejected ConnectionClosed), (2, Rejected ConnectionClosed), (3, Rejected ConnectionClosed)] \<and>
   stdout (on_close 4 three_pending) =
     [McpError (Some (JNum 7)) ConnectionClosed, McpError (Some (JNum 7)) ConnectionClosed,
      McpError (Some (JNum 7)) ConnectionClosed] \<and>
   timers (on_close 4 three_pending) = [] \<and>
   sent (on_close 4 three_pending) = sent three_pending"
  using disconnect_rejects_all_pending[of 4 three_pending]
  by (simp add: three_pending_fields)









text \<open>
  C7, at the input on which the auto-port bridge fails: two sockets connect one after the other.
  Its \<open>connection\<close> handler only overwrites \<open>obsidianConnection\<close>, so the server holds
  both sockets open; the earlier bridge, on the same two connections, has closed the first and
  holds one.
\<close>

theorem second_connection_keeps_first_open:
  "clients (run [Connection 4, Connection 5] initial_bridge) = [4, 5] \<and>
   obsidianConnection (run [Connection 4, Connection 5] initial_bridge) = Some 5 \<and>
   open_sockets (on_connection_earlier 5 (on_connection_earlier 4
       \<lparr> held = None, open_sockets = [], closing_sockets = [] \<rparr>)) = [5]"
  by (simp add: run_def on_connection_def initial_bridge_def on_connection_earlier_def)

text \<open>
  C8, at the input on which the service fails: a child that exits 100 ms before each tick of
  the health check. Each exit is followed by two starts, one by the health check and one by the
  restart timer of the exit handler, so eight children are started within 42 seconds of the
  first start while \<open>restartCount\<close> is only 4 and the throttle has not engaged. (The gate
  itself holds for every caller of \<open>startBridge\<close>, and a crash loop without a tick in
  between is throttled at the fifth exit: \<open>startBridge_throttled\<close>,
  \<open>cooldown_callback_restarts\<close>, \<open>crash_loop_is_throttled\<close>.)
\<close>

theorem health_check_restarts_outside_throttle:
  "map fst (spawned (sup_run exits_before_health_checks (main 0))) =
     [0, 10000, 11900, 20000, 21900, 30000, 31900, 40000, 41900] \<and>
   restartCount (sup_run exits_before_health_checks (main 0)) = 4 \<and>
   length (filter (\<lambda>t. 0 < t \<and> t < RESTART_COOLDOWN)
      (map fst (spawned (sup_run exits_before_health_checks (main 0))))) = 8"
  by (simp add: exits_before_health_checks_def sup_run_def main_def initial_supervisor_def
      restart_callback_def startBridge_def on_exit_def health_check_def Let_def
      MAX_RESTARTS_def RESTART_COOLDOWN_def CHECK_INTERVAL_def)



text \<open>
  C10, at the input on which the plugin fails: \<open>get_console_logs\<close> with \<open>limit = 0\<close> on
  a buffer of three messages. \<open>slice(-0)\<close> is \<open>slice(0)\<close>, so all three messages are
  returned, which is more than \<open>limit\<close>. (The buffer bound and the case of a positive
  limit hold: \<open>capture_keeps_bound\<close>, \<open>getConsoleLogs_positive_limit\<close>,
  \<open>getConsoleLogs_default\<close>.)
\<close>

theorem getConsoleLogs_limit_zero_returns_all:
  "getConsoleLogs (Some 0) [''first'', ''second'', ''third''] = [''first'', ''second'', ''third''] \<and>
   \<not> int (length (getConsoleLogs (Some 0) [''first'', ''second'', ''third''])) \<le> 0"
  by (simp add: getConsoleLogs_def slice_from_def)

end
